theory Spec2Isabelle
  imports Complex_Main
begin

section \<open>The tensor operations the notebook calls\<close>

text \<open>
  The notebook \<open>module_user_guide.ipynb\<close> builds a variational auto-encoder for count
  data twice: by hand (\<open>MyModule\<close>) and as a Pyro model/guide pair (\<open>MyPyroModule\<close>),
  both from one feed-forward block (\<open>MyNeuralNet\<close>).

  The tensor library and the probabilistic-programming library are not part of the
  notebook; the operations the notebook calls are defined in this section by their
  documented meaning. Numbers are real numbers: rounding, overflow and underflow of
  the machine floats are outside this development. A vector (a tensor of rank one) is
  a list, a matrix (rank two, batch by features) a list of rows. A name of the
  notebook that starts with an underscore is written without it.

  Five things end a run before it returns a finite result, and each is a value of
  \<open>torch_error\<close>:
  \<^item> \<open>ShapeError\<close>: the tensor library rejects operands whose shapes neither agree
    nor broadcast (a \<open>RuntimeError\<close>);
  \<^item> \<open>KeyError\<close>: a dictionary is read at a key it does not have;
  \<^item> \<open>ValueError\<close>: a distribution rejects its arguments, or the value whose
    log-probability is asked for (the validation that the library runs by default);
  \<^item> \<open>ZeroDivisionError\<close>: a sample site is declared inside a plate of size 0;
  \<^item> \<open>NonFinite\<close>: an operation leaves the real numbers (the logarithm of a number
    that is not positive, the square root of a negative number, a division by zero);
    the library goes on with an infinity or a NaN there, and the model follows such a
    run no further.
  The exponential is that of the real numbers, which is never 0; the machine
  exponential underflows to 0 on very negative arguments, and that is outside this
  development as well.
\<close>

type_synonym vec = "real list"
type_synonym mat = "real list list"

datatype torch_error = ShapeError | KeyError | ValueError | ZeroDivisionError | NonFinite

definition ebind :: "torch_error + 'a \<Rightarrow> ('a \<Rightarrow> torch_error + 'b) \<Rightarrow> torch_error + 'b" where
  "ebind r f = (case r of Inl e \<Rightarrow> Inl e | Inr v \<Rightarrow> f v)"

fun mapE :: "('a \<Rightarrow> torch_error + 'b) \<Rightarrow> 'a list \<Rightarrow> torch_error + 'b list" where
  "mapE f [] = Inr []"
| "mapE f (x # xs) = ebind (f x) (\<lambda>y. ebind (mapE f xs) (\<lambda>ys. Inr (y # ys)))"

text \<open>
  Broadcasting along one dimension: equal sizes pair up, a size of one is repeated, any
  other pair of sizes is rejected. \<open>broadcast2\<close> applies it to rows and then to columns.
  (A matrix without rows carries no column count here, so the column check of two
  empty batches is not made.)
\<close>

definition broadcast1 ::
  "('a \<Rightarrow> 'b \<Rightarrow> torch_error + 'c) \<Rightarrow> 'a list \<Rightarrow> 'b list \<Rightarrow> torch_error + 'c list" where
  "broadcast1 f xs ys =
     (if length xs = length ys then mapE (\<lambda>(x, y). f x y) (zip xs ys)
      else if length xs = 1 then mapE (\<lambda>y. f (hd xs) y) ys
      else if length ys = 1 then mapE (\<lambda>x. f x (hd ys)) xs
      else Inl ShapeError)"

definition broadcast2 ::
  "('a \<Rightarrow> 'b \<Rightarrow> torch_error + 'c) \<Rightarrow> 'a list list \<Rightarrow> 'b list list \<Rightarrow> torch_error + 'c list list" where
  "broadcast2 f a b = broadcast1 (broadcast1 f) a b"

definition pointwise :: "(real \<Rightarrow> torch_error + real) \<Rightarrow> mat \<Rightarrow> torch_error + mat" where
  "pointwise f a = mapE (mapE f) a"

text \<open>The scalar operations, with the arguments on which the result is no real number.\<close>

definition log_s :: "real \<Rightarrow> torch_error + real" where
  "log_s v = (if 0 < v then Inr (ln v) else Inl NonFinite)"

definition sqrt_s :: "real \<Rightarrow> torch_error + real" where
  "sqrt_s v = (if 0 \<le> v then Inr (sqrt v) else Inl NonFinite)"

definition div_s :: "real \<Rightarrow> real \<Rightarrow> torch_error + real" where
  "div_s u v = (if v = 0 then Inl NonFinite else Inr (u / v))"

definition total2 :: "('a \<Rightarrow> 'b \<Rightarrow> 'c) \<Rightarrow> 'a \<Rightarrow> 'b \<Rightarrow> torch_error + 'c" where
  "total2 f u v = Inr (f u v)"

definition torch_log :: "mat \<Rightarrow> torch_error + mat" where
  "torch_log a = pointwise log_s a"

definition torch_sqrt :: "mat \<Rightarrow> torch_error + mat" where
  "torch_sqrt a = pointwise sqrt_s a"

definition torch_exp :: "mat \<Rightarrow> mat" where
  "torch_exp a = map (map exp) a"

text \<open>A scalar added to every entry (\<open>1 + x\<close>, \<open>px_rate + 1e-4\<close>).\<close>

definition add_scalar :: "real \<Rightarrow> mat \<Rightarrow> mat" where
  "add_scalar c a = map (map (\<lambda>v. c + v)) a"

text \<open>\<open>torch.sum(a, dim=1, keepdim=True)\<close>: one column holding the sum of each row.\<close>

definition sum_dim1_keepdim :: "mat \<Rightarrow> mat" where
  "sum_dim1_keepdim a = map (\<lambda>row. [sum_list row]) a"

text \<open>\<open>a.sum(dim=-1)\<close> of a matrix: the vector of the row sums.\<close>

definition sum_last :: "mat \<Rightarrow> vec" where
  "sum_last a = map sum_list a"

text \<open>\<open>torch.mean\<close> of a vector; the mean of no numbers is a NaN.\<close>

definition torch_mean :: "vec \<Rightarrow> torch_error + real" where
  "torch_mean v = div_s (sum_list v) (real (length v))"

subsection \<open>\<open>torch.nn.Linear\<close>, \<open>ReLU\<close>, \<open>Softmax\<close>, \<open>Sequential\<close>\<close>

text \<open>
  A linear layer holds a weight matrix of \<open>out_features\<close> rows and \<open>in_features\<close>
  columns and a bias of \<open>out_features\<close> entries. Its constructor draws them at random;
  the draw is an argument here: \<open>W i j\<close> is the weight drawn for position \<open>(i, j)\<close>
  and \<open>c i\<close> the bias drawn for position \<open>i\<close>.
\<close>

record Linear =
  in_features :: nat
  out_features :: nat
  weight :: mat
  bias :: vec

definition Linear_init :: "nat \<Rightarrow> nat \<Rightarrow> (nat \<Rightarrow> nat \<Rightarrow> real) \<Rightarrow> (nat \<Rightarrow> real) \<Rightarrow> Linear" where
  "Linear_init n_in n_out W c =
     \<lparr>in_features = n_in, out_features = n_out,
      weight = map (\<lambda>i. map (\<lambda>j. W i j) [0..<n_in]) [0..<n_out],
      bias = map c [0..<n_out]\<rparr>"

definition dot :: "vec \<Rightarrow> vec \<Rightarrow> real" where
  "dot u v = sum_list (map2 (*) u v)"

definition affine_row :: "Linear \<Rightarrow> vec \<Rightarrow> vec" where
  "affine_row l row = map2 (\<lambda>w c. dot row w + c) (weight l) (bias l)"

definition Linear_forward :: "Linear \<Rightarrow> mat \<Rightarrow> torch_error + mat" where
  "Linear_forward l x =
     (if \<forall>row \<in> set x. length row = in_features l
      then Inr (map (affine_row l) x) else Inl ShapeError)"

definition ReLU :: "mat \<Rightarrow> mat" where
  "ReLU a = map (map (max 0)) a"

text \<open>
  Modelled from the spec: \<open>torch.nn.Softmax(dim=-1)\<close> is the tensor library's, absent
  from the notebook. The spec calls it the softmax link, whose output rows lie on the
  probability simplex: each entry is the exponential of the input entry over the sum
  of the exponentials of its row.
\<close>

definition softmax_row :: "vec \<Rightarrow> vec" where
  "softmax_row row = map (\<lambda>v. exp v / sum_list (map exp row)) row"

definition Softmax_last :: "mat \<Rightarrow> mat" where
  "Softmax_last a = map softmax_row a"

text \<open>
  The block \<open>Sequential(Linear(n_input, 128), ReLU(), Linear(128, n_output))\<close>,
  with its two parameterised layers at positions 0 and 2. The width 128 of the hidden
  layer is written \<open>n_hidden\<close>.
\<close>

definition n_hidden :: nat where
  "n_hidden = 128"

record Sequential =
  layer0 :: Linear
  layer2 :: Linear

definition Sequential_forward :: "Sequential \<Rightarrow> mat \<Rightarrow> torch_error + mat" where
  "Sequential_forward s x =
     ebind (Linear_forward (layer0 s) x) (\<lambda>h. Linear_forward (layer2 s) (ReLU h))"

subsection \<open>Distributions\<close>

text \<open>
  \<open>Normal(loc, scale)\<close> stores its two arguments broadcast to one shape and then
  validates them: every entry of \<open>scale\<close> must be positive.
\<close>

record Normal =
  loc :: mat
  scale :: mat

definition Normal_init :: "mat \<Rightarrow> mat \<Rightarrow> torch_error + Normal" where
  "Normal_init l s =
     ebind (broadcast2 (total2 Pair) l s) (\<lambda>ps.
       let self = \<lparr>loc = map (map fst) ps, scale = map (map snd) ps\<rparr>
       in if \<forall>row\<in>set (scale self). \<forall>v\<in>set row. 0 < v then Inr self
          else Inl ValueError)"

text \<open>
  The standard-normal noise that \<open>rsample\<close> draws has the shape of the distribution;
  the draw is an argument: \<open>eps i j\<close> is the number drawn for row \<open>i\<close>, column \<open>j\<close>.
\<close>

definition standard_normal :: "(nat \<Rightarrow> nat \<Rightarrow> real) \<Rightarrow> mat \<Rightarrow> mat" where
  "standard_normal eps a =
     map (\<lambda>(i, row). map (\<lambda>j. eps i j) [0..<length row]) (enumerate 0 a)"

text \<open>
  Modelled from the spec: \<open>Normal.rsample\<close> is the tensor library's, absent from the
  notebook. The spec describes it: draw a standard-normal noise vector and compute
  mean + standard deviation * noise.
\<close>

definition rsample :: "Normal \<Rightarrow> (nat \<Rightarrow> nat \<Rightarrow> real) \<Rightarrow> torch_error + mat" where
  "rsample d eps =
     ebind (broadcast2 (total2 (*)) (standard_normal eps (loc d)) (scale d)) (\<lambda>noise.
       broadcast2 (total2 (+)) (loc d) noise)"

definition zeros_like :: "mat \<Rightarrow> mat" where
  "zeros_like a = map (map (\<lambda>_. 0)) a"

definition ones_like :: "mat \<Rightarrow> mat" where
  "ones_like a = map (map (\<lambda>_. 1)) a"

text \<open>
  Modelled from the spec: \<open>kl_divergence\<close> of two normal distributions is the tensor
  library's, absent from the notebook. The spec gives its value against the standard
  normal, per entry \<open>0.5 * (var + mean^2 - 1 - log var)\<close> where \<open>var\<close> is the square of
  the first distribution's scale; the definition is the closed form for two normal
  distributions, with the ratio of the variances for \<open>var\<close> and the difference of the
  means over the second scale for \<open>mean\<close>.
\<close>

definition kl_normal_normal :: "real \<times> real \<Rightarrow> real \<times> real \<Rightarrow> torch_error + real" where
  "kl_normal_normal p q =
     ebind (div_s (snd p) (snd q)) (\<lambda>r.
     ebind (div_s (fst p - fst q) (snd q)) (\<lambda>d.
       let var_ratio = r\<^sup>2; t1 = d\<^sup>2
       in ebind (log_s var_ratio) (\<lambda>l. Inr (0.5 * (var_ratio + t1 - 1 - l)))))"

definition loc_scale :: "Normal \<Rightarrow> (real \<times> real) list list" where
  "loc_scale d = map2 zip (loc d) (scale d)"

definition kl :: "Normal \<Rightarrow> Normal \<Rightarrow> torch_error + mat" where
  "kl p q = broadcast2 kl_normal_normal (loc_scale p) (loc_scale q)"

text \<open>
  \<open>NegativeBinomial(total_count, logits)\<close> likewise stores its arguments broadcast to
  one shape (a vector counts as a matrix of one row) and validates them: no entry of
  \<open>total_count\<close> may be negative. \<open>log_prob\<close> first validates the value: its shape
  must broadcast against the distribution's and every entry must lie in the support,
  the non-negative integers (\<open>value % 1 == 0\<close> and \<open>value >= 0\<close>). The
  log-probability itself needs the logarithm of the gamma function, which is not
  available here: the scalar log-probability \<open>lp total_count logits value\<close> is a
  parameter of \<open>log_prob\<close>.
\<close>

record NegativeBinomial =
  total_count :: mat
  logits :: mat

definition NegativeBinomial_init :: "vec \<Rightarrow> mat \<Rightarrow> torch_error + NegativeBinomial" where
  "NegativeBinomial_init tc lg =
     ebind (broadcast2 (total2 Pair) [tc] lg) (\<lambda>ps.
       let self = \<lparr>total_count = map (map fst) ps, logits = map (map snd) ps\<rparr>
       in if \<forall>row\<in>set (total_count self). \<forall>v\<in>set row. 0 \<le> v then Inr self
          else Inl ValueError)"

definition nonnegative_integer :: "real \<Rightarrow> bool" where
  "nonnegative_integer v \<longleftrightarrow> v = of_int \<lfloor>v\<rfloor> \<and> 0 \<le> v"

definition log_prob ::
  "(real \<Rightarrow> real \<Rightarrow> real \<Rightarrow> real) \<Rightarrow> NegativeBinomial \<Rightarrow> mat \<Rightarrow> torch_error + mat" where
  "log_prob lp d v =
     (if \<forall>row\<in>set v. \<forall>u\<in>set row. nonnegative_integer u
      then case broadcast2 (total2 (\<lambda>(tc, lg) u. lp tc lg u))
                  (map2 zip (total_count d) (logits d)) v of
             Inl e \<Rightarrow> Inl ValueError
           | Inr lps \<Rightarrow> Inr lps
      else Inl ValueError)"

section \<open>\<open>MyNeuralNet\<close>\<close>

text \<open>The draw of the four parameter tensors of one network.\<close>

record net_draw =
  W0 :: "nat \<Rightarrow> nat \<Rightarrow> real"
  c0 :: "nat \<Rightarrow> real"
  W2 :: "nat \<Rightarrow> nat \<Rightarrow> real"
  c2 :: "nat \<Rightarrow> real"

datatype link = Softmax | Exp

record MyNeuralNet =
  neural_net :: Sequential
  transformation :: "link option"

definition MyNeuralNet_init :: "nat \<Rightarrow> nat \<Rightarrow> string \<Rightarrow> net_draw \<Rightarrow> MyNeuralNet" where
  "MyNeuralNet_init n_input n_output link_var d =
     (let self = \<lparr>neural_net =
                    \<lparr>layer0 = Linear_init n_input n_hidden (W0 d) (c0 d),
                     layer2 = Linear_init n_hidden n_output (W2 d) (c2 d)\<rparr>,
                  transformation = None\<rparr>
      in if link_var = ''softmax'' then self\<lparr>transformation := Some Softmax\<rparr>
         else if link_var = ''exp'' then self\<lparr>transformation := Some Exp\<rparr>
         else self)"

definition apply_link :: "link \<Rightarrow> mat \<Rightarrow> mat" where
  "apply_link t a = (case t of Softmax \<Rightarrow> Softmax_last a | Exp \<Rightarrow> torch_exp a)"

definition forward :: "MyNeuralNet \<Rightarrow> mat \<Rightarrow> torch_error + mat" where
  "forward self x =
     ebind (Sequential_forward (neural_net self) x) (\<lambda>output.
       case transformation self of
         Some t \<Rightarrow> Inr (apply_link t output)
       | None \<Rightarrow> Inr output)"

section \<open>\<open>MyModule\<close>: the hand-written pipeline\<close>

text \<open>
  The module owns three networks and the vector \<open>log_theta\<close>. The constructor draws
  them; the draw is its last argument.
\<close>

record module_draw =
  decoder_draw :: net_draw
  log_theta_draw :: "nat \<Rightarrow> real"
  mean_encoder_draw :: net_draw
  var_encoder_draw :: net_draw

record MyModule =
  decoder :: MyNeuralNet
  log_theta :: vec
  mean_encoder :: MyNeuralNet
  var_encoder :: MyNeuralNet

definition MyModule_init :: "nat \<Rightarrow> nat \<Rightarrow> module_draw \<Rightarrow> MyModule" where
  "MyModule_init n_input n_latent d =
     \<lparr>decoder = MyNeuralNet_init n_latent n_input ''softmax'' (decoder_draw d),
      log_theta = map (log_theta_draw d) [0..<n_input],
      mean_encoder = MyNeuralNet_init n_input n_latent ''none'' (mean_encoder_draw d),
      var_encoder = MyNeuralNet_init n_input n_latent ''exp'' (var_encoder_draw d)\<rparr>"

text \<open>
  The batch handed over by the data loader is a dictionary of tensors; the count matrix
  is at the framework's key \<open>REGISTRY_KEYS.X_KEY\<close>, the string \<open>X\<close>.
\<close>

type_synonym tensors = "string \<rightharpoonup> mat"

definition X_KEY :: string where
  "X_KEY = ''X''"

definition getitem :: "(string \<rightharpoonup> 'a) \<Rightarrow> string \<Rightarrow> torch_error + 'a" where
  "getitem d k = (case d k of None \<Rightarrow> Inl KeyError | Some v \<Rightarrow> Inr v)"

text \<open>
  The dictionaries that the routines return have fixed keys and are records; the field
  of key \<open>k\<close> is \<open>io_k\<close> in the outputs of \<open>inference\<close> and \<open>go_k\<close> in those of
  \<open>generative\<close>. A dictionary of keyword arguments is the tuple of its values, in the
  order of the parameters of the routine that receives them.
\<close>

record inference_outputs =
  io_qz_m :: mat
  io_qz_v :: mat
  io_z :: mat

record generative_outputs =
  go_px_scale :: mat
  go_theta :: vec
  go_px_rate :: mat

text \<open>\<open>LossRecorder(loss, reconstruction_loss, kl_local, kl_global)\<close> of the framework.\<close>

record LossRecorder =
  lr_loss :: real
  lr_reconstruction_loss :: vec
  lr_kl_local :: vec
  lr_kl_global :: real

definition get_inference_input :: "MyModule \<Rightarrow> tensors \<Rightarrow> torch_error + mat" where
  "get_inference_input self tensors = getitem tensors X_KEY"

text \<open>
  A routine of the module is called on \<open>self\<close> and returns \<open>self\<close> as the call leaves
  it, next to its result. \<open>eps\<close> is the noise that the reparameterised sampler draws.
\<close>

definition inference ::
  "MyModule \<Rightarrow> mat \<Rightarrow> (nat \<Rightarrow> nat \<Rightarrow> real) \<Rightarrow> MyModule \<times> (torch_error + inference_outputs)" where
  "inference self x eps =
     (self,
      ebind (torch_log (add_scalar 1 x)) (\<lambda>x'.
      ebind (forward (mean_encoder self) x') (\<lambda>qz_m.
      ebind (forward (var_encoder self) x') (\<lambda>qz_v.
      ebind (torch_sqrt qz_v) (\<lambda>sd.
      ebind (Normal_init qz_m sd) (\<lambda>q.
      ebind (rsample q eps) (\<lambda>z.
        Inr \<lparr>io_qz_m = qz_m, io_qz_v = qz_v, io_z = z\<rparr>)))))))"

definition get_generative_input ::
  "MyModule \<Rightarrow> tensors \<Rightarrow> inference_outputs \<Rightarrow> torch_error + mat \<times> mat" where
  "get_generative_input self tensors inference_outputs =
     (let z = io_z inference_outputs
      in ebind (getitem tensors X_KEY) (\<lambda>x.
           let library = sum_dim1_keepdim x
           in Inr (z, library)))"

definition generative ::
  "MyModule \<Rightarrow> mat \<Rightarrow> mat \<Rightarrow> MyModule \<times> (torch_error + generative_outputs)" where
  "generative self z library =
     (self,
      ebind (forward (decoder self) z) (\<lambda>px_scale.
      ebind (broadcast2 (total2 (*)) library px_scale) (\<lambda>px_rate.
        let theta = map exp (log_theta self)
        in Inr \<lparr>go_px_scale = px_scale, go_theta = theta, go_px_rate = px_rate\<rparr>)))"

text \<open>
  The conversion to the logits of the library's negative binomial, as \<open>loss\<close> and the
  Pyro model both write it:
  \<open>(px_rate + 1e-4).log() - (theta + 1e-4).log()\<close>.
\<close>

definition nb_logits :: "mat \<Rightarrow> vec \<Rightarrow> torch_error + mat" where
  "nb_logits px_rate theta =
     ebind (torch_log (add_scalar (1 / 10000) px_rate)) (\<lambda>a.
     ebind (mapE log_s (map (\<lambda>v. 1 / 10000 + v) theta)) (\<lambda>b.
       broadcast2 (total2 (-)) a [b]))"

text \<open>The second term of \<open>loss\<close>, before the sum over the latent dimensions.\<close>

definition kl_term :: "mat \<Rightarrow> mat \<Rightarrow> torch_error + mat" where
  "kl_term qz_m qz_v =
     ebind (Normal_init (zeros_like qz_m) (ones_like qz_v)) (\<lambda>prior_dist.
     ebind (torch_sqrt qz_v) (\<lambda>sd.
     ebind (Normal_init qz_m sd) (\<lambda>var_post_dist.
       kl var_post_dist prior_dist)))"

definition loss ::
  "(real \<Rightarrow> real \<Rightarrow> real \<Rightarrow> real) \<Rightarrow> MyModule \<Rightarrow> tensors \<Rightarrow> inference_outputs
     \<Rightarrow> generative_outputs \<Rightarrow> MyModule \<times> (torch_error + LossRecorder)" where
  "loss lp self tensors inference_outputs generative_outputs =
     (self,
      ebind (getitem tensors X_KEY) (\<lambda>x.
      let px_rate = go_px_rate generative_outputs;
          theta = go_theta generative_outputs;
          qz_m = io_qz_m inference_outputs;
          qz_v = io_qz_v inference_outputs
      in ebind (nb_logits px_rate theta) (\<lambda>lg.
         ebind (NegativeBinomial_init theta lg) (\<lambda>nb.
         ebind (log_prob lp nb x) (\<lambda>lps.
         let log_lik = sum_last lps
         in ebind (kl_term qz_m qz_v) (\<lambda>kls.
            let kl_divergence = sum_last kls
            in ebind (broadcast1 (total2 (-)) log_lik kl_divergence) (\<lambda>elbo.
               ebind (torch_mean (map uminus elbo)) (\<lambda>l.
                 Inr \<lparr>lr_loss = l, lr_reconstruction_loss = map uminus log_lik,
                      lr_kl_local = kl_divergence, lr_kl_global = 0\<rparr>))))))))"

section \<open>\<open>MyPyroModule\<close>: the model and guide pair\<close>

text \<open>
  The Pyro module has the same four parameter attributes and keeps the two dimensions;
  its fields carry the suffix \<open>_p\<close>.
\<close>

record MyPyroModule =
  n_latent_p :: nat
  n_input_p :: nat
  decoder_p :: MyNeuralNet
  log_theta_p :: vec
  mean_encoder_p :: MyNeuralNet
  var_encoder_p :: MyNeuralNet

definition MyPyroModule_init :: "nat \<Rightarrow> nat \<Rightarrow> module_draw \<Rightarrow> MyPyroModule" where
  "MyPyroModule_init n_input n_latent d =
     \<lparr>n_latent_p = n_latent,
      n_input_p = n_input,
      decoder_p = MyNeuralNet_init n_latent n_input ''softmax'' (decoder_draw d),
      log_theta_p = map (log_theta_draw d) [0..<n_input],
      mean_encoder_p = MyNeuralNet_init n_input n_latent ''none'' (mean_encoder_draw d),
      var_encoder_p = MyNeuralNet_init n_input n_latent ''exp'' (var_encoder_draw d)\<rparr>"

text \<open>
  \<open>_get_fn_args_from_batch\<close> returns the positional arguments \<open>(x, library)\<close> and
  an empty dictionary of keyword arguments, for the model and for the guide alike.
\<close>

definition get_fn_args_from_batch ::
  "tensors \<Rightarrow> torch_error + (mat \<times> mat) \<times> (string \<rightharpoonup> mat)" where
  "get_fn_args_from_batch tensor_dict =
     ebind (getitem tensor_dict X_KEY) (\<lambda>x.
       let library = sum_dim1_keepdim x
       in Inr ((x, library), Map.empty))"

text \<open>
  A Pyro program declares sample sites; what it hands to the inference engine is the
  distribution of each site, and the value of an observed one. The value of the site
  \<open>latent\<close> in the model is given by the engine (it is the guide's draw when the ELBO
  is computed): it is the argument \<open>z\<close>. Registering the parameters with
  \<open>pyro.module\<close> computes nothing and is left out.

  The sites of the model and of the guide are declared inside
  \<open>pyro.plate("data", x.shape[0])\<close>. The plate scales each site by its size over its
  subsample size, here the size itself: on a batch without rows that division is by
  zero and the site raises.
\<close>

definition plate_sample :: "nat \<Rightarrow> 'a \<Rightarrow> torch_error + 'a" where
  "plate_sample n fn = (if n = 0 then Inl ZeroDivisionError else Inr fn)"

record model_trace =
  latent_fn :: Normal
  latent_value :: mat
  obs_fn :: NegativeBinomial
  obs_value :: mat

definition model :: "MyPyroModule \<Rightarrow> mat \<Rightarrow> mat \<Rightarrow> mat \<Rightarrow> torch_error + model_trace" where
  "model self x library z =
     (let z_loc = replicate (length x) (replicate (n_latent_p self) 0);
          z_scale = replicate (length x) (replicate (n_latent_p self) 1)
      in ebind (Normal_init z_loc z_scale) (\<lambda>prior_dist.
         ebind (plate_sample (length x) prior_dist) (\<lambda>prior.
         ebind (forward (decoder_p self) z) (\<lambda>px_scale.
         ebind (broadcast2 (total2 (*)) library px_scale) (\<lambda>px_rate.
         let theta = map exp (log_theta_p self)
         in ebind (torch_log (add_scalar (1 / 10000) px_rate)) (\<lambda>a.
            ebind (mapE log_s (map (\<lambda>v. 1 / 10000 + v) theta)) (\<lambda>b.
            ebind (broadcast2 (total2 (-)) a [b]) (\<lambda>lg.
            ebind (NegativeBinomial_init theta lg) (\<lambda>x_dist.
            ebind (plate_sample (length x) x_dist) (\<lambda>obs.
              Inr \<lparr>latent_fn = prior, latent_value = z,
                   obs_fn = obs, obs_value = x\<rparr>))))))))))"

definition guide :: "MyPyroModule \<Rightarrow> mat \<Rightarrow> mat \<Rightarrow> torch_error + Normal" where
  "guide self x log_library =
     ebind (torch_log (add_scalar 1 x)) (\<lambda>x'.
     ebind (forward (mean_encoder_p self) x') (\<lambda>qz_m.
     ebind (forward (var_encoder_p self) x') (\<lambda>qz_v.
     ebind (torch_sqrt qz_v) (\<lambda>sd.
     ebind (Normal_init qz_m sd) (\<lambda>q.
       plate_sample (length x) q)))))"

section \<open>The routines as the specification words them\<close>

text \<open>
  The feature transform of the specification: an affine map to the hidden
  representation, the rectified-linear nonlinearity, an affine map to \<open>n_out\<close>
  outputs; the link function is applied to the result. Written with the drawn
  parameters and sums over indices.
\<close>

definition spec_hidden :: "net_draw \<Rightarrow> nat \<Rightarrow> vec \<Rightarrow> nat \<Rightarrow> real" where
  "spec_hidden d n_in row k = max 0 ((\<Sum>i<n_in. row ! i * W0 d k i) + c0 d k)"

definition spec_transform :: "net_draw \<Rightarrow> nat \<Rightarrow> nat \<Rightarrow> vec \<Rightarrow> vec" where
  "spec_transform d n_in n_out row =
     map (\<lambda>j. (\<Sum>k<n_hidden. spec_hidden d n_in row k * W2 d j k) + c2 d j) [0..<n_out]"

text \<open>
  The inference routine: \<open>log(1 + x)\<close>, the mean encoder with the identity link, the
  variance encoder with the exponential link, and the reparameterised draw
  \<open>qz_mean + sqrt(qz_var) * noise\<close>.
\<close>

definition spec_qz_mean :: "module_draw \<Rightarrow> nat \<Rightarrow> nat \<Rightarrow> mat \<Rightarrow> mat" where
  "spec_qz_mean d n_input n_latent x =
     map (\<lambda>row. spec_transform (mean_encoder_draw d) n_input n_latent
                  (map (\<lambda>v. ln (1 + v)) row)) x"

definition spec_qz_var :: "module_draw \<Rightarrow> nat \<Rightarrow> nat \<Rightarrow> mat \<Rightarrow> mat" where
  "spec_qz_var d n_input n_latent x =
     map (\<lambda>row. map exp (spec_transform (var_encoder_draw d) n_input n_latent
                  (map (\<lambda>v. ln (1 + v)) row))) x"

definition spec_z :: "mat \<Rightarrow> mat \<Rightarrow> (nat \<Rightarrow> nat \<Rightarrow> real) \<Rightarrow> nat \<Rightarrow> nat \<Rightarrow> mat" where
  "spec_z qz_mean qz_var noise batch_size n_latent =
     map (\<lambda>i. map (\<lambda>j. qz_mean ! i ! j + sqrt (qz_var ! i ! j) * noise i j) [0..<n_latent])
       [0..<batch_size]"

text \<open>
  The generative routine: the decoder with the softmax link gives \<open>px_scale\<close>, each
  row scaled by its size factor gives \<open>px_rate\<close>, the exponential of the
  log-dispersion gives \<open>theta\<close>.
\<close>

definition spec_px_scale :: "module_draw \<Rightarrow> nat \<Rightarrow> nat \<Rightarrow> mat \<Rightarrow> mat" where
  "spec_px_scale d n_input n_latent z =
     map (\<lambda>row. softmax_row (spec_transform (decoder_draw d) n_latent n_input row)) z"

definition spec_px_rate :: "mat \<Rightarrow> mat \<Rightarrow> mat" where
  "spec_px_rate library px_scale =
     map (\<lambda>i. map (\<lambda>v. library ! i ! 0 * v) (px_scale ! i)) [0..<length px_scale]"

definition spec_theta :: "module_draw \<Rightarrow> nat \<Rightarrow> vec" where
  "spec_theta d n_input = map (\<lambda>j. exp (log_theta_draw d j)) [0..<n_input]"

text \<open>
  The objective routine: the logits \<open>log(px_rate + eps) - log(theta + eps)\<close> with
  \<open>eps = 1e-4\<close>, the log-likelihood of a row summed over the features, the KL
  divergence of a row summed over the latent dimensions, the evidence lower bound of a
  row, and the negative mean of the bound over the batch.
\<close>

definition spec_logits :: "real \<Rightarrow> real \<Rightarrow> real" where
  "spec_logits rate th = ln (rate + 1 / 10000) - ln (th + 1 / 10000)"

definition spec_log_likelihood ::
  "(real \<Rightarrow> real \<Rightarrow> real \<Rightarrow> real) \<Rightarrow> vec \<Rightarrow> vec \<Rightarrow> vec \<Rightarrow> real" where
  "spec_log_likelihood lp xrow rates th =
     (\<Sum>j<length th. lp (th ! j) (spec_logits (rates ! j) (th ! j)) (xrow ! j))"

definition spec_kl :: "real \<Rightarrow> real \<Rightarrow> real" where
  "spec_kl m v = 0.5 * (v + m\<^sup>2 - 1 - ln v)"

definition spec_kl_divergence :: "vec \<Rightarrow> vec \<Rightarrow> real" where
  "spec_kl_divergence means vars = (\<Sum>k<length means. spec_kl (means ! k) (vars ! k))"

definition spec_elbo ::
  "(real \<Rightarrow> real \<Rightarrow> real \<Rightarrow> real) \<Rightarrow> mat \<Rightarrow> mat \<Rightarrow> vec \<Rightarrow> mat \<Rightarrow> mat \<Rightarrow> nat \<Rightarrow> real" where
  "spec_elbo lp x px_rate th qz_mean qz_var i =
     spec_log_likelihood lp (x ! i) (px_rate ! i) th
       - spec_kl_divergence (qz_mean ! i) (qz_var ! i)"

definition spec_loss ::
  "(real \<Rightarrow> real \<Rightarrow> real \<Rightarrow> real) \<Rightarrow> mat \<Rightarrow> mat \<Rightarrow> vec \<Rightarrow> mat \<Rightarrow> mat \<Rightarrow> real" where
  "spec_loss lp x px_rate th qz_mean qz_var =
     - ((\<Sum>i<length x. spec_elbo lp x px_rate th qz_mean qz_var i) / real (length x))"

text \<open>A matrix of \<open>b\<close> rows and \<open>n\<close> columns.\<close>

definition has_shape :: "'a list list \<Rightarrow> nat \<Rightarrow> nat \<Rightarrow> bool" where
  "has_shape a b n \<longleftrightarrow> length a = b \<and> (\<forall>row\<in>set a. length row = n)"

section \<open>Concrete instances\<close>

text \<open>A draw in which every weight and bias is zero, and a noise draw of ones.\<close>

definition net_draw0 :: net_draw where
  "net_draw0 = \<lparr>W0 = (\<lambda>i j. 0), c0 = (\<lambda>i. 0), W2 = (\<lambda>i j. 0), c2 = (\<lambda>i. 0)\<rparr>"

definition module_draw0 :: module_draw where
  "module_draw0 =
     \<lparr>decoder_draw = net_draw0, log_theta_draw = (\<lambda>i. 0),
      mean_encoder_draw = net_draw0, var_encoder_draw = net_draw0\<rparr>"

definition eps1 :: "nat \<Rightarrow> nat \<Rightarrow> real" where
  "eps1 i j = 1"

text \<open>
  A stand-in for the scalar log-probability of the negative binomial: its part without
  the normalising term, \<open>total_count * logsigmoid(-logits) + value * logsigmoid(logits)\<close>.
\<close>

definition lp0 :: "real \<Rightarrow> real \<Rightarrow> real \<Rightarrow> real" where
  "lp0 tc lg v = tc * (- ln (1 + exp lg)) + v * (- ln (1 + exp (- lg)))"

section \<open>Lemmas about the tensor operations\<close>

lemma ebind_Inr [simp]: "ebind (Inr v) f = f v"
  by (simp add: ebind_def)

lemma ebind_Inl [simp]: "ebind (Inl e) f = Inl e"
  by (simp add: ebind_def)

lemma ebind_eq_Inr: "ebind r f = Inr y \<longleftrightarrow> (\<exists>v. r = Inr v \<and> f v = Inr y)"
  by (cases r) simp_all

lemma mapE_total: "(\<And>x. x \<in> set xs \<Longrightarrow> f x = Inr (g x)) \<Longrightarrow> mapE f xs = Inr (map g xs)"
  by (induction xs) simp_all

lemma broadcast1_same:
  "length xs = length ys \<Longrightarrow> (\<And>x y. (x, y) \<in> set (zip xs ys) \<Longrightarrow> f x y = Inr (g x y))
   \<Longrightarrow> broadcast1 f xs ys = Inr (map2 g xs ys)"
  unfolding broadcast1_def
  by (simp add: mapE_total [where g = "\<lambda>(x, y). g x y"] split_beta cong: map_cong)

lemma dot_upt:
  assumes "length row = n"
  shows "dot row (map f [0..<n]) = (\<Sum>i<n. row ! i * f i)"
proof -
  have "dot row (map f [0..<n]) = (\<Sum>i = 0..<n. map2 (*) row (map f [0..<n]) ! i)"
    using assms by (simp add: dot_def sum_list_sum_nth)
  also have "\<dots> = (\<Sum>i = 0..<n. row ! i * f i)"
    using assms by (intro sum.cong) simp_all
  finally show ?thesis
    by (simp add: atLeast0LessThan)
qed

lemma affine_row_init:
  "affine_row (Linear_init n_in n_out W c) row
     = map (\<lambda>j. dot row (map (W j) [0..<n_in]) + c j) [0..<n_out]"
  by (simp add: affine_row_def Linear_init_def zip_map_map zip_same_conv_map)

lemma length_affine_row_init [simp]:
  "length (affine_row (Linear_init n_in n_out W c) row) = n_out"
  by (simp add: affine_row_init)

lemma Linear_forward_init:
  "Linear_forward (Linear_init n_in n_out W c) x =
     (if \<forall>row\<in>set x. length row = n_in
      then Inr (map (affine_row (Linear_init n_in n_out W c)) x) else Inl ShapeError)"
  by (simp add: Linear_forward_def Linear_init_def)

lemma pre_link_row:
  assumes "length row = n_in"
  shows "affine_row (Linear_init n_hidden n_out (W2 d) (c2 d))
           (map (max 0) (affine_row (Linear_init n_in n_hidden (W0 d) (c0 d)) row))
         = spec_transform d n_in n_out row"
proof -
  let ?h = "map (max 0) (affine_row (Linear_init n_in n_hidden (W0 d) (c0 d)) row)"
  have len: "length ?h = n_hidden" by simp
  have hk: "max 0 (affine_row (Linear_init n_in n_hidden (W0 d) (c0 d)) row ! k)
      = spec_hidden d n_in row k" if "k < n_hidden" for k
    using that assms by (simp add: affine_row_init dot_upt spec_hidden_def)
  have "dot ?h (map (W2 d j) [0..<n_hidden]) = (\<Sum>k<n_hidden. spec_hidden d n_in row k * W2 d j k)" for j
    unfolding dot_upt [OF len] by (intro sum.cong) (simp_all add: hk)
  then show ?thesis
    unfolding spec_transform_def affine_row_init [of n_hidden] by simp
qed

lemma neural_net_init:
  "neural_net (MyNeuralNet_init n_in n_out lv d) =
      \<lparr>layer0 = Linear_init n_in n_hidden (W0 d) (c0 d),
       layer2 = Linear_init n_hidden n_out (W2 d) (c2 d)\<rparr>"
  by (simp add: MyNeuralNet_init_def Let_def)

lemma Sequential_forward_init:
  "Sequential_forward (neural_net (MyNeuralNet_init n_in n_out lv d)) x =
     (if \<forall>row\<in>set x. length row = n_in
      then Inr (map (spec_transform d n_in n_out) x) else Inl ShapeError)"
proof (cases "\<forall>row\<in>set x. length row = n_in")
  case True
  have "Sequential_forward (neural_net (MyNeuralNet_init n_in n_out lv d)) x
      = Inr (map (\<lambda>row. affine_row (Linear_init n_hidden n_out (W2 d) (c2 d))
           (map (max 0) (affine_row (Linear_init n_in n_hidden (W0 d) (c0 d)) row))) x)"
    using True by (simp add: neural_net_init Sequential_forward_def Linear_forward_init ReLU_def o_def)
  also have "\<dots> = Inr (map (spec_transform d n_in n_out) x)"
    using True by (simp add: pre_link_row cong: map_cong)
  finally show ?thesis using True by simp
next
  case False
  then have "Linear_forward (Linear_init n_in n_hidden (W0 d) (c0 d)) x = Inl ShapeError"
    unfolding Linear_forward_init by simp
  with False show ?thesis
    by (simp add: neural_net_init Sequential_forward_def)
qed

lemma transformation_init:
  "transformation (MyNeuralNet_init n_in n_out lv d) =
     (if lv = ''softmax'' then Some Softmax else if lv = ''exp'' then Some Exp else None)"
  by (simp add: MyNeuralNet_init_def Let_def)

lemma forward_init:
  "forward (MyNeuralNet_init n_in n_out lv d) x =
     (if \<forall>row\<in>set x. length row = n_in
      then Inr (map (\<lambda>row. if lv = ''softmax'' then softmax_row (spec_transform d n_in n_out row)
                            else if lv = ''exp'' then map exp (spec_transform d n_in n_out row)
                            else spec_transform d n_in n_out row) x)
      else Inl ShapeError)"
  by (simp add: forward_def Sequential_forward_init transformation_init apply_link_def
      Softmax_last_def torch_exp_def)

lemma mapE_log_s:
  "mapE log_s row = (if \<forall>v\<in>set row. 0 < v then Inr (map ln row) else Inl NonFinite)"
  by (induction row) (simp_all add: log_s_def)

lemma torch_log_eq:
  "torch_log a = (if \<forall>row\<in>set a. \<forall>v\<in>set row. 0 < v then Inr (map (map ln) a) else Inl NonFinite)"
  unfolding torch_log_def pointwise_def
  by (induction a) (simp_all add: mapE_log_s)

lemma mapE_sqrt_s:
  "mapE sqrt_s row = (if \<forall>v\<in>set row. 0 \<le> v then Inr (map sqrt row) else Inl NonFinite)"
  by (induction row) (simp_all add: sqrt_s_def)

lemma torch_sqrt_eq:
  "torch_sqrt a = (if \<forall>row\<in>set a. \<forall>v\<in>set row. 0 \<le> v then Inr (map (map sqrt) a) else Inl NonFinite)"
  unfolding torch_sqrt_def pointwise_def
  by (induction a) (simp_all add: mapE_sqrt_s)

lemma torch_log_add_scalar:
  "torch_log (add_scalar c a) =
     (if \<forall>row\<in>set a. \<forall>v\<in>set row. 0 < c + v
      then Inr (map (map (\<lambda>v. ln (c + v))) a) else Inl NonFinite)"
  by (simp add: torch_log_eq add_scalar_def o_def)

lemma broadcast1_total_same:
  "length xs = length ys \<Longrightarrow> broadcast1 (total2 g) xs ys = Inr (map2 g xs ys)"
  by (rule broadcast1_same) (simp_all add: total2_def)

lemma broadcast2_total_same:
  assumes "length a = length b" and "\<And>i. i < length a \<Longrightarrow> length (a ! i) = length (b ! i)"
  shows "broadcast2 (total2 g) a b = Inr (map2 (map2 g) a b)"
  unfolding broadcast2_def
proof (rule broadcast1_same [OF assms(1)])
  fix ra rb assume "(ra, rb) \<in> set (zip a b)"
  then obtain i where "i < length a" "ra = a ! i" "rb = b ! i"
    using assms(1) by (auto simp: set_zip)
  then show "broadcast1 (total2 g) ra rb = Inr (map2 g ra rb)"
    using assms(2) by (simp add: broadcast1_total_same)
qed

lemma map_fst_map2_Pair:
  assumes "length a = length b" and "\<And>i. i < length a \<Longrightarrow> length (a ! i) = length (b ! i)"
  shows "map (map fst) (map2 (map2 Pair) a b) = a" and "map (map snd) (map2 (map2 Pair) a b) = b"
  using assms by (auto intro!: nth_equalityI simp: zip_map_fst_snd)

lemma Normal_init_same:
  assumes "length l = length s" and "\<And>i. i < length l \<Longrightarrow> length (l ! i) = length (s ! i)"
    and pos: "\<forall>row\<in>set s. \<forall>v\<in>set row. 0 < v"
  shows "Normal_init l s = Inr \<lparr>loc = l, scale = s\<rparr>"
proof -
  have "broadcast2 (total2 Pair) l s = Inr (map2 (map2 Pair) l s)"
    using assms(1,2) by (rule broadcast2_total_same)
  then have "Normal_init l s =
      (if \<forall>row\<in>set s. \<forall>v\<in>set row. 0 < v then Inr \<lparr>loc = l, scale = s\<rparr> else Inl ValueError)"
    unfolding Normal_init_def
    by (simp only: ebind_Inr map_fst_map2_Pair [OF assms(1,2)] Let_def Normal.simps)
  with pos show ?thesis by simp
qed

lemma Normal_init_shape:
  "has_shape l b n \<Longrightarrow> has_shape s b n \<Longrightarrow> \<forall>row\<in>set s. \<forall>v\<in>set row. 0 < v
   \<Longrightarrow> Normal_init l s = Inr \<lparr>loc = l, scale = s\<rparr>"
  by (rule Normal_init_same) (simp_all add: has_shape_def)

lemma length_standard_normal [simp]: "length (standard_normal eps a) = length a"
  by (simp add: standard_normal_def)

lemma nth_standard_normal:
  "i < length a \<Longrightarrow> standard_normal eps a ! i = map (\<lambda>j. eps i j) [0..<length (a ! i)]"
  by (simp add: standard_normal_def nth_enumerate_eq)

lemma map2_map2_nth:
  assumes "has_shape a b n" and "has_shape c b n"
  shows "map2 (map2 g) a c = map (\<lambda>i. map (\<lambda>j. g (a ! i ! j) (c ! i ! j)) [0..<n]) [0..<b]"
  using assms by (auto intro!: nth_equalityI simp: has_shape_def)

lemma has_shape_standard_normal:
  "has_shape a b n \<Longrightarrow> has_shape (standard_normal eps a) b n"
  by (auto simp: has_shape_def all_set_conv_all_nth nth_standard_normal)

lemma has_shape_map2_map2:
  "has_shape a b n \<Longrightarrow> has_shape c b n \<Longrightarrow> has_shape (map2 (map2 g) a c) b n"
  by (auto simp: has_shape_def set_zip)

lemma broadcast2_total_shape:
  assumes "has_shape a b n" and "has_shape c b n"
  shows "broadcast2 (total2 g) a c = Inr (map2 (map2 g) a c)"
  using assms by (intro broadcast2_total_same) (simp_all add: has_shape_def)

lemma rsample_same:
  assumes l: "has_shape l b n" and s: "has_shape s b n"
  shows "rsample \<lparr>loc = l, scale = s\<rparr> eps
       = Inr (map (\<lambda>i. map (\<lambda>j. l ! i ! j + eps i j * s ! i ! j) [0..<n]) [0..<b])"
proof -
  let ?noise = "map2 (map2 (*)) (standard_normal eps l) s"
  have n: "has_shape ?noise b n"
    by (intro has_shape_map2_map2 has_shape_standard_normal l s)
  have "rsample \<lparr>loc = l, scale = s\<rparr> eps = Inr (map2 (map2 (+)) l ?noise)"
    by (simp add: rsample_def broadcast2_total_shape [OF has_shape_standard_normal [OF l] s]
        broadcast2_total_shape [OF l n])
  also have "map2 (map2 (+)) l ?noise
      = map (\<lambda>i. map (\<lambda>j. l ! i ! j + ?noise ! i ! j) [0..<n]) [0..<b]"
    by (rule map2_map2_nth [OF l n])
  also have "\<dots> = map (\<lambda>i. map (\<lambda>j. l ! i ! j + eps i j * s ! i ! j) [0..<n]) [0..<b]"
    using l s by (auto simp: has_shape_def nth_standard_normal)
  finally show ?thesis .
qed

lemma length_spec_transform [simp]: "length (spec_transform d n_in n_out row) = n_out"
  by (simp add: spec_transform_def)

lemma has_shape_spec_qz_mean: "has_shape (spec_qz_mean d n_input n_latent x) (length x) n_latent"
  by (auto simp: has_shape_def spec_qz_mean_def)

lemma has_shape_spec_qz_var: "has_shape (spec_qz_var d n_input n_latent x) (length x) n_latent"
  by (auto simp: has_shape_def spec_qz_var_def)

lemma spec_qz_var_pos:
  "row \<in> set (spec_qz_var d n_input n_latent x) \<Longrightarrow> v \<in> set row \<Longrightarrow> 0 < v"
  by (auto simp: spec_qz_var_def)

lemma has_shape_map_map: "has_shape a b n \<Longrightarrow> has_shape (map (map g) a) b n"
  by (auto simp: has_shape_def)

lemma sqrt_entries_pos:
  "\<forall>row\<in>set a. \<forall>v\<in>set row. 0 < v \<Longrightarrow> \<forall>row\<in>set (map (map sqrt) a). \<forall>v\<in>set row. 0 < v"
  by auto

lemma spec_qz_var_all_pos: "\<forall>row\<in>set (spec_qz_var d n_input n_latent x). \<forall>v\<in>set row. 0 < v"
  using spec_qz_var_pos by blast

lemma ones_like_pos: "\<forall>row\<in>set (ones_like a). \<forall>v\<in>set row. (0::real) < v"
  by (auto simp: ones_like_def)

lemma encoders_init:
  assumes "\<forall>row\<in>set x. length row = n_input"
  shows "forward (mean_encoder (MyModule_init n_input n_latent d)) (map (map (\<lambda>v. ln (1 + v))) x)
           = Inr (spec_qz_mean d n_input n_latent x)"
    and "forward (var_encoder (MyModule_init n_input n_latent d)) (map (map (\<lambda>v. ln (1 + v))) x)
           = Inr (spec_qz_var d n_input n_latent x)"
  using assms
  by (simp_all add: MyModule_init_def forward_init spec_qz_mean_def spec_qz_var_def o_def)

lemma inference_init:
  assumes shape: "\<forall>row\<in>set x. length row = n_input"
    and pos: "\<forall>row\<in>set x. \<forall>v\<in>set row. 0 < 1 + v"
  shows "snd (inference (MyModule_init n_input n_latent d) x eps) =
     Inr \<lparr>io_qz_m = spec_qz_mean d n_input n_latent x,
          io_qz_v = spec_qz_var d n_input n_latent x,
          io_z = spec_z (spec_qz_mean d n_input n_latent x) (spec_qz_var d n_input n_latent x)
                   eps (length x) n_latent\<rparr>"
proof -
  let ?m = "spec_qz_mean d n_input n_latent x" and ?v = "spec_qz_var d n_input n_latent x"
  let ?sd = "map (map sqrt) ?v"
  have lg: "torch_log (add_scalar 1 x) = Inr (map (map (\<lambda>v. ln (1 + v))) x)"
    using pos by (simp add: torch_log_add_scalar)
  have sq: "torch_sqrt ?v = Inr ?sd"
    unfolding torch_sqrt_eq using spec_qz_var_pos [of _ d n_input n_latent x]
    by (auto intro: less_imp_le)
  have hm: "has_shape ?m (length x) n_latent" by (rule has_shape_spec_qz_mean)
  have hs: "has_shape ?sd (length x) n_latent"
    by (intro has_shape_map_map has_shape_spec_qz_var)
  have ni: "Normal_init ?m ?sd = Inr \<lparr>loc = ?m, scale = ?sd\<rparr>"
    by (rule Normal_init_shape [OF hm hs sqrt_entries_pos [OF spec_qz_var_all_pos]])
  have rs: "rsample \<lparr>loc = ?m, scale = ?sd\<rparr> eps = Inr (spec_z ?m ?v eps (length x) n_latent)"
    unfolding rsample_same [OF hm hs] spec_z_def
    using has_shape_spec_qz_var [of d n_input n_latent x]
    by (auto simp: has_shape_def mult.commute)
  show ?thesis
    by (simp add: inference_def lg encoders_init [OF shape] sq ni rs)
qed

lemma sum_exp_pos: "row \<noteq> [] \<Longrightarrow> 0 < sum_list (map exp row :: real list)"
  by (cases row) (auto intro!: add_pos_nonneg sum_list_nonneg)

lemma softmax_row_sum: "row \<noteq> [] \<Longrightarrow> sum_list (softmax_row row) = 1"
proof -
  assume ne: "row \<noteq> []"
  have "sum_list (map (\<lambda>v. exp v / sum_list (map exp row)) row)
      = sum_list (map exp row) / sum_list (map exp row)"
    by (simp add: divide_inverse sum_list_mult_const)
  with sum_exp_pos [OF ne] show ?thesis
    by (simp add: softmax_row_def)
qed


lemma length_softmax_row [simp]: "length (softmax_row row) = length row"
  by (simp add: softmax_row_def)

lemma decoder_init:
  "forward (decoder (MyModule_init n_input n_latent d)) z =
     (if \<forall>row\<in>set z. length row = n_latent
      then Inr (map (\<lambda>row. softmax_row (spec_transform (decoder_draw d) n_latent n_input row)) z)
      else Inl ShapeError)"
  by (simp add: MyModule_init_def forward_init)

lemma generative_Inr:
  "snd (generative self z library) = Inr go \<longleftrightarrow>
     (\<exists>px_scale px_rate. forward (decoder self) z = Inr px_scale
        \<and> broadcast2 (total2 (*)) library px_scale = Inr px_rate
        \<and> go = \<lparr>go_px_scale = px_scale, go_theta = map exp (log_theta self),
                 go_px_rate = px_rate\<rparr>)"
  by (auto simp: generative_def ebind_eq_Inr Let_def)

lemma broadcast1_total_single:
  "length xs = 1 \<Longrightarrow> broadcast1 (total2 g) xs ys = Inr (map (g (hd xs)) ys)"
  by (cases xs; cases ys) (auto simp: broadcast1_def total2_def mapE_total [where g = "g (hd xs)"])

lemma broadcast2_column:
  assumes "has_shape l b 1" and "length p = b"
  shows "broadcast2 (total2 g) l p = Inr (map2 (\<lambda>lrow prow. map (g (hd lrow)) prow) l p)"
  unfolding broadcast2_def
proof (rule broadcast1_same)
  show "length l = length p" using assms by (simp add: has_shape_def)
next
  fix lrow prow assume "(lrow, prow) \<in> set (zip l p)"
  then have "lrow \<in> set l" by (rule set_zip_leftD)
  then have "length lrow = 1" using assms(1) by (simp add: has_shape_def)
  then show "broadcast1 (total2 g) lrow prow = Inr (map (g (hd lrow)) prow)"
    by (rule broadcast1_total_single)
qed

lemma has_shape_spec_px_scale:
  "has_shape z b n_latent \<Longrightarrow> has_shape (spec_px_scale d n_input n_latent z) b n_input"
  by (auto simp: has_shape_def spec_px_scale_def)

lemma spec_px_scale_row_sum:
  "0 < n_input \<Longrightarrow> row \<in> set (spec_px_scale d n_input n_latent z) \<Longrightarrow> sum_list row = 1"
proof -
  assume n: "0 < n_input" and "row \<in> set (spec_px_scale d n_input n_latent z)"
  then obtain r where "row = softmax_row (spec_transform (decoder_draw d) n_latent n_input r)"
    by (auto simp: spec_px_scale_def)
  moreover have "spec_transform (decoder_draw d) n_latent n_input r \<noteq> []"
    using n by (simp add: spec_transform_def)
  ultimately show ?thesis by (simp add: softmax_row_sum)
qed


lemma column_scale:
  assumes "has_shape l b 1" and "length p = b"
  shows "map2 (\<lambda>lrow prow. map ((*) (hd lrow)) prow) l p = spec_px_rate l p"
proof -
  have "hd (l ! i) = l ! i ! 0" if "i < b" for i
  proof -
    from that assms(1) have "length (l ! i) = 1" by (simp add: has_shape_def)
    then show ?thesis by (cases "l ! i") simp_all
  qed
  with assms show ?thesis
    by (auto intro!: nth_equalityI simp: has_shape_def spec_px_rate_def)
qed

lemma generative_init:
  assumes z: "has_shape z b n_latent" and l: "has_shape library b 1"
  shows "snd (generative (MyModule_init n_input n_latent d) z library) =
     Inr \<lparr>go_px_scale = spec_px_scale d n_input n_latent z,
          go_theta = spec_theta d n_input,
          go_px_rate = spec_px_rate library (spec_px_scale d n_input n_latent z)\<rparr>"
proof -
  let ?p = "spec_px_scale d n_input n_latent z"
  have len: "length ?p = b"
    using has_shape_spec_px_scale [OF z] by (simp add: has_shape_def)
  have dec: "forward (decoder (MyModule_init n_input n_latent d)) z = Inr ?p"
    using z by (simp add: decoder_init has_shape_def spec_px_scale_def)
  have th: "map exp (log_theta (MyModule_init n_input n_latent d)) = spec_theta d n_input"
    by (simp add: MyModule_init_def spec_theta_def)
  have "broadcast2 (total2 (*)) library ?p = Inr (spec_px_rate library ?p)"
    by (simp add: broadcast2_column [OF l len] column_scale [OF l len])
  then show ?thesis
    unfolding generative_Inr using dec th by simp
qed

lemma broadcast2_shape:
  assumes a: "has_shape a b n" and c: "has_shape c b n"
    and f: "\<And>i j. i < b \<Longrightarrow> j < n \<Longrightarrow> f (a ! i ! j) (c ! i ! j) = Inr (g (a ! i ! j) (c ! i ! j))"
  shows "broadcast2 f a c = Inr (map (\<lambda>i. map (\<lambda>j. g (a ! i ! j) (c ! i ! j)) [0..<n]) [0..<b])"
proof -
  have "broadcast2 f a c = Inr (map2 (map2 g) a c)"
    unfolding broadcast2_def
  proof (rule broadcast1_same)
    show "length a = length c" using a c by (simp add: has_shape_def)
  next
    fix ra rc assume "(ra, rc) \<in> set (zip a c)"
    then obtain i where i: "i < b" "ra = a ! i" "rc = c ! i"
      using a c by (auto simp: set_zip has_shape_def)
    show "broadcast1 f ra rc = Inr (map2 g ra rc)"
    proof (rule broadcast1_same)
      show "length ra = length rc"
        using i a c by (simp add: has_shape_def)
    next
      fix u v assume "(u, v) \<in> set (zip ra rc)"
      then obtain j where "j < n" "u = ra ! j" "v = rc ! j"
        using i a c by (auto simp: set_zip has_shape_def)
      with i f show "f u v = Inr (g u v)" by simp
    qed
  qed
  then show ?thesis
    by (simp only: map2_map2_nth [OF a c])
qed

lemma has_shape_zeros_like: "has_shape a b n \<Longrightarrow> has_shape (zeros_like a) b n"
  unfolding zeros_like_def by (rule has_shape_map_map)

lemma has_shape_ones_like: "has_shape a b n \<Longrightarrow> has_shape (ones_like a) b n"
  unfolding ones_like_def by (rule has_shape_map_map)

lemma has_shape_map2_zip:
  "has_shape a b n \<Longrightarrow> has_shape c b n \<Longrightarrow> has_shape (map2 zip a c) b n"
  by (auto simp: has_shape_def set_zip)

lemma nth_map2_zip:
  "has_shape a b n \<Longrightarrow> has_shape c b n \<Longrightarrow> i < b \<Longrightarrow> j < n
   \<Longrightarrow> map2 zip a c ! i ! j = (a ! i ! j, c ! i ! j)"
  by (simp add: has_shape_def)

lemma kl_normal_normal_standard:
  "0 < v \<Longrightarrow> kl_normal_normal (m, sqrt v) (0, 1) = Inr (spec_kl m v)"
  by (simp add: kl_normal_normal_def div_s_def log_s_def spec_kl_def Let_def)

lemma torch_sqrt_pos:
  "\<forall>row\<in>set a. \<forall>v\<in>set row. 0 < v \<Longrightarrow> torch_sqrt a = Inr (map (map sqrt) a)"
  unfolding torch_sqrt_eq by (auto intro: less_imp_le)

lemma entry_nth:
  assumes "has_shape a b n" and "\<forall>row\<in>set a. \<forall>v\<in>set row. P v" and "i < b" and "j < n"
  shows "P (a ! i ! j)"
proof -
  from assms(1,3) have "a ! i \<in> set a" and "length (a ! i) = n"
    by (simp_all add: has_shape_def)
  with assms(2,4) show ?thesis by simp
qed

lemma kl_term_eq:
  assumes m: "has_shape qz_m b n" and v: "has_shape qz_v b n"
    and pos: "\<forall>row\<in>set qz_v. \<forall>v\<in>set row. 0 < v"
  shows "kl_term qz_m qz_v
       = Inr (map (\<lambda>i. map (\<lambda>j. spec_kl (qz_m ! i ! j) (qz_v ! i ! j)) [0..<n]) [0..<b])"
proof -
  let ?sd = "map (map sqrt) qz_v"
  have sd: "has_shape ?sd b n" by (rule has_shape_map_map [OF v])
  have z: "has_shape (zeros_like qz_m) b n" by (rule has_shape_zeros_like [OF m])
  have o: "has_shape (ones_like qz_v) b n" by (rule has_shape_ones_like [OF v])
  have p: "has_shape (map2 zip qz_m ?sd) b n" by (rule has_shape_map2_zip [OF m sd])
  have q: "has_shape (map2 zip (zeros_like qz_m) (ones_like qz_v)) b n"
    by (rule has_shape_map2_zip [OF z o])
  have vpos: "0 < qz_v ! i ! j" if "i < b" "j < n" for i j
    using that by (rule entry_nth [OF v pos])
  have pij: "map2 zip qz_m ?sd ! i ! j = (qz_m ! i ! j, sqrt (qz_v ! i ! j))"
    if "i < b" "j < n" for i j
    using that v by (simp add: nth_map2_zip [OF m sd] has_shape_def)
  have qij: "map2 zip (zeros_like qz_m) (ones_like qz_v) ! i ! j = (0, 1)"
    if "i < b" "j < n" for i j
    using that m v by (simp add: nth_map2_zip [OF z o] has_shape_def zeros_like_def ones_like_def)
  have "kl \<lparr>loc = qz_m, scale = ?sd\<rparr> \<lparr>loc = zeros_like qz_m, scale = ones_like qz_v\<rparr>
      = Inr (map (\<lambda>i. map (\<lambda>j. spec_kl (qz_m ! i ! j) (qz_v ! i ! j)) [0..<n]) [0..<b])"
  proof -
    have "broadcast2 kl_normal_normal (map2 zip qz_m ?sd)
            (map2 zip (zeros_like qz_m) (ones_like qz_v))
        = Inr (map (\<lambda>i. map (\<lambda>j. (\<lambda>p q. spec_kl (fst p) ((snd p)\<^sup>2))
                 (map2 zip qz_m ?sd ! i ! j)
                 (map2 zip (zeros_like qz_m) (ones_like qz_v) ! i ! j)) [0..<n]) [0..<b])"
      by (rule broadcast2_shape [OF p q])
         (simp add: pij qij kl_normal_normal_standard vpos less_imp_le)
    also have "\<dots> = Inr (map (\<lambda>i. map (\<lambda>j. spec_kl (qz_m ! i ! j) (qz_v ! i ! j)) [0..<n]) [0..<b])"
      by (simp add: pij vpos less_imp_le)
    finally show ?thesis
      by (simp add: kl_def loc_scale_def)
  qed
  then show ?thesis
    by (simp add: kl_term_def Normal_init_shape [OF z o ones_like_pos] torch_sqrt_pos [OF pos]
        Normal_init_shape [OF m sd sqrt_entries_pos [OF pos]])
qed

lemma spec_kl_nonneg: "0 < v \<Longrightarrow> 0 \<le> spec_kl m v"
proof -
  assume "0 < v"
  then have "ln v \<le> v - 1" by (rule ln_le_minus_one)
  moreover have "0 \<le> m\<^sup>2" by (rule zero_le_power2)
  ultimately have "0 \<le> v + m\<^sup>2 - 1 - ln v" by linarith
  then show ?thesis by (simp add: spec_kl_def)
qed

lemma broadcast1_right_single:
  "length ys = 1 \<Longrightarrow> broadcast1 f xs ys = mapE (\<lambda>x. f x (hd ys)) xs"
  by (cases ys; cases xs) (auto simp: broadcast1_def)

lemma broadcast1_left_single:
  "length xs = 1 \<Longrightarrow> broadcast1 f xs ys = mapE (\<lambda>y. f (hd xs) y) ys"
  by (cases xs; cases ys) (auto simp: broadcast1_def)

lemma nb_logits_eq:
  assumes r: "has_shape px_rate b n" and t: "length theta = n"
    and rpos: "\<forall>row\<in>set px_rate. \<forall>v\<in>set row. 0 < 1 / 10000 + v"
    and tpos: "\<forall>v\<in>set theta. 0 < 1 / 10000 + v"
  shows "nb_logits px_rate theta
       = Inr (map (\<lambda>i. map (\<lambda>j. spec_logits (px_rate ! i ! j) (theta ! j)) [0..<n]) [0..<b])"
proof -
  let ?a = "map (map (\<lambda>v. ln (1 / 10000 + v))) px_rate"
  let ?b = "map (\<lambda>v. ln (1 / 10000 + v)) theta"
  have la: "torch_log (add_scalar (1 / 10000) px_rate) = Inr ?a"
    using rpos by (simp add: torch_log_add_scalar)
  have lb: "mapE log_s (map (\<lambda>v. 1 / 10000 + v) theta) = Inr ?b"
    using tpos by (simp add: mapE_log_s o_def)
  have rows: "broadcast1 (total2 (-)) row ?b = Inr (map2 (-) row ?b)" if "row \<in> set ?a" for row
    using that r t by (intro broadcast1_total_same) (auto simp: has_shape_def)
  have "broadcast2 (total2 (-)) ?a [?b] = Inr (map (\<lambda>row. map2 (-) row ?b) ?a)"
    unfolding broadcast2_def broadcast1_right_single [of "[?b]", simplified]
    using rows by (intro mapE_total) simp
  also have "map (\<lambda>row. map2 (-) row ?b) ?a
      = map (\<lambda>i. map (\<lambda>j. spec_logits (px_rate ! i ! j) (theta ! j)) [0..<n]) [0..<b]"
    using r t by (auto intro!: nth_equalityI simp: has_shape_def spec_logits_def add.commute)
  finally show ?thesis
    by (simp add: nb_logits_def la lb)
qed

lemma NegativeBinomial_init_eq:
  assumes lg: "has_shape lg b n" and t: "length theta = n"
    and nn: "\<forall>v\<in>set theta. 0 \<le> v"
  shows "NegativeBinomial_init theta lg
       = Inr \<lparr>total_count = replicate b theta, logits = lg\<rparr>"
proof -
  have rows: "broadcast1 (total2 Pair) theta row = Inr (zip theta row)" if "row \<in> set lg" for row
    using that lg t broadcast1_total_same [of theta row Pair] by (simp add: has_shape_def)
  have b2: "broadcast2 (total2 Pair) [theta] lg = Inr (map (zip theta) lg)"
    unfolding broadcast2_def broadcast1_left_single [of "[theta]", simplified]
    using rows by (intro mapE_total) simp
  have f: "map (map fst) (map (zip theta) lg) = replicate b theta"
    using lg t by (auto intro!: nth_equalityI simp: has_shape_def)
  have sn: "map (map snd) (map (zip theta) lg) = lg"
    using lg t by (auto intro!: nth_equalityI simp: has_shape_def)
  have "NegativeBinomial_init theta lg =
      (if \<forall>row\<in>set (replicate b theta). \<forall>v\<in>set row. 0 \<le> v
       then Inr \<lparr>total_count = replicate b theta, logits = lg\<rparr> else Inl ValueError)"
    unfolding NegativeBinomial_init_def
    by (simp only: b2 ebind_Inr Let_def f sn NegativeBinomial.simps)
  with nn show ?thesis by auto
qed

lemma has_shape_replicate: "has_shape (replicate b row) b (length row)"
  by (simp add: has_shape_def)

lemma log_prob_eq:
  assumes lg: "has_shape lg b n" and t: "length theta = n" and x: "has_shape x b n"
    and sup: "\<forall>row\<in>set x. \<forall>u\<in>set row. nonnegative_integer u"
  shows "log_prob lp \<lparr>total_count = replicate b theta, logits = lg\<rparr> x
       = Inr (map (\<lambda>i. map (\<lambda>j. lp (theta ! j) (lg ! i ! j) (x ! i ! j)) [0..<n]) [0..<b])"
proof -
  have tc: "has_shape (replicate b theta) b n"
    using has_shape_replicate [of b theta] t by simp
  have p: "has_shape (map2 zip (replicate b theta) lg) b n"
    by (rule has_shape_map2_zip [OF tc lg])
  have "broadcast2 (total2 (\<lambda>(tc, lg) u. lp tc lg u)) (map2 zip (replicate b theta) lg) x
      = Inr (map (\<lambda>i. map (\<lambda>j. (\<lambda>(tc, lg) u. lp tc lg u)
              (map2 zip (replicate b theta) lg ! i ! j) (x ! i ! j)) [0..<n]) [0..<b])"
    by (rule broadcast2_shape [OF p x]) (simp add: total2_def)
  also have "\<dots> = Inr (map (\<lambda>i. map (\<lambda>j. lp (theta ! j) (lg ! i ! j) (x ! i ! j)) [0..<n]) [0..<b])"
    by (simp add: nth_map2_zip [OF tc lg])
  finally show ?thesis
    using sup by (simp add: log_prob_def)
qed

lemma sum_list_upt: "sum_list (map f [0..<n]) = (\<Sum>j<n. f j)"
  by (simp add: interv_sum_list_conv_sum_set_nat atLeast0LessThan)

lemma sum_list_uminus: "sum_list (map uminus v) = - sum_list (v :: real list)"
  by (induction v) simp_all

lemma torch_mean_neg:
  "0 < length v \<Longrightarrow> torch_mean (map uminus v) = Inr (- (sum_list v / real (length v)))"
  by (simp add: torch_mean_def div_s_def sum_list_uminus)

lemma loss_eq:
  assumes x: "tensors X_KEY = Some x" "has_shape x b n"
    and r: "has_shape (go_px_rate go) b n" and t: "length (go_theta go) = n"
    and m: "has_shape (io_qz_m io) b k" and v: "has_shape (io_qz_v io) b k"
    and b: "0 < b"
    and rpos: "\<forall>row\<in>set (go_px_rate go). \<forall>v\<in>set row. 0 < 1 / 10000 + v"
    and nn: "\<forall>v\<in>set (go_theta go). 0 \<le> v"
    and vpos: "\<forall>row\<in>set (io_qz_v io). \<forall>v\<in>set row. 0 < v"
    and sup: "\<forall>row\<in>set x. \<forall>u\<in>set row. nonnegative_integer u"
  shows "snd (loss lp self tensors io go) =
     Inr \<lparr>lr_loss = spec_loss lp x (go_px_rate go) (go_theta go) (io_qz_m io) (io_qz_v io),
          lr_reconstruction_loss =
            map (\<lambda>i. - spec_log_likelihood lp (x ! i) (go_px_rate go ! i) (go_theta go)) [0..<b],
          lr_kl_local = map (\<lambda>i. spec_kl_divergence (io_qz_m io ! i) (io_qz_v io ! i)) [0..<b],
          lr_kl_global = 0\<rparr>"
proof -
  let ?lg = "map (\<lambda>i. map (\<lambda>j. spec_logits (go_px_rate go ! i ! j) (go_theta go ! j)) [0..<n]) [0..<b]"
  let ?lps = "map (\<lambda>i. map (\<lambda>j. lp (go_theta go ! j) (?lg ! i ! j) (x ! i ! j)) [0..<n]) [0..<b]"
  let ?kls = "map (\<lambda>i. map (\<lambda>j. spec_kl (io_qz_m io ! i ! j) (io_qz_v io ! i ! j)) [0..<k]) [0..<b]"
  let ?ll = "map (\<lambda>i. spec_log_likelihood lp (x ! i) (go_px_rate go ! i) (go_theta go)) [0..<b]"
  let ?kd = "map (\<lambda>i. spec_kl_divergence (io_qz_m io ! i) (io_qz_v io ! i)) [0..<b]"
  have gx: "getitem tensors X_KEY = Inr x"
    using x(1) by (simp add: getitem_def)
  have tpos: "\<forall>v\<in>set (go_theta go). 0 < 1 / 10000 + v"
    using nn by (auto intro: add_pos_nonneg)
  have lg: "nb_logits (go_px_rate go) (go_theta go) = Inr ?lg"
    by (rule nb_logits_eq [OF r t rpos tpos])
  have hlg: "has_shape ?lg b n" by (auto simp: has_shape_def)
  have nb: "NegativeBinomial_init (go_theta go) ?lg
      = Inr \<lparr>total_count = replicate b (go_theta go), logits = ?lg\<rparr>"
    by (rule NegativeBinomial_init_eq [OF hlg t nn])
  have lps: "log_prob lp \<lparr>total_count = replicate b (go_theta go), logits = ?lg\<rparr> x = Inr ?lps"
    by (rule log_prob_eq [OF hlg t x(2) sup])
  have ll: "sum_last ?lps = ?ll"
    using t by (simp add: sum_last_def sum_list_upt spec_log_likelihood_def o_def)
  have kls: "kl_term (io_qz_m io) (io_qz_v io) = Inr ?kls"
    by (rule kl_term_eq [OF m v vpos])
  have kd: "sum_last ?kls = ?kd"
    using m by (simp add: sum_last_def sum_list_upt spec_kl_divergence_def o_def has_shape_def)
  have elbo: "broadcast1 (total2 (-)) ?ll ?kd = Inr (map2 (-) ?ll ?kd)"
    by (rule broadcast1_total_same) simp
  have e: "map2 (-) ?ll ?kd
      = map (\<lambda>i. spec_elbo lp x (go_px_rate go) (go_theta go) (io_qz_m io) (io_qz_v io) i) [0..<b]"
    by (auto intro!: nth_equalityI simp: spec_elbo_def)
  have mean: "torch_mean (map uminus (map2 (-) ?ll ?kd))
      = Inr (spec_loss lp x (go_px_rate go) (go_theta go) (io_qz_m io) (io_qz_v io))"
  proof -
    let ?e = "map (\<lambda>i. spec_elbo lp x (go_px_rate go) (go_theta go) (io_qz_m io) (io_qz_v io) i) [0..<b]"
    have "torch_mean (map uminus ?e) = Inr (- (sum_list ?e / real (length ?e)))"
      by (rule torch_mean_neg) (simp add: b)
    also have "sum_list ?e / real (length ?e)
        = (\<Sum>i<length x. spec_elbo lp x (go_px_rate go) (go_theta go) (io_qz_m io) (io_qz_v io) i)
            / real (length x)"
      using x(2) by (simp add: sum_list_upt has_shape_def)
    finally show ?thesis
      unfolding e spec_loss_def .
  qed
  show ?thesis
    unfolding loss_def snd_conv gx ebind_Inr Let_def lg nb lps ll kls kd elbo mean
    by (simp add: o_def)
qed

lemma has_shape_spec_z: "has_shape (spec_z m v eps b n) b n"
  by (auto simp: has_shape_def spec_z_def)


lemma length_spec_theta [simp]: "length (spec_theta d n_input) = n_input"
  by (simp add: spec_theta_def)

lemma spec_theta_pos: "v \<in> set (spec_theta d n_input) \<Longrightarrow> 0 < v"
  by (auto simp: spec_theta_def)

lemma sum_dim1_keepdim_zeros:
  "sum_dim1_keepdim (replicate b (replicate n 0)) = replicate b [0]"
  by (simp add: sum_dim1_keepdim_def sum_list_replicate)

lemma spec_px_rate_zero_library:
  assumes "has_shape p b n"
  shows "spec_px_rate (replicate b [0]) p = replicate b (replicate n 0)"
  using assms
  by (auto intro!: nth_equalityI simp: has_shape_def spec_px_rate_def)



lemma plate_sample_nonempty [simp]: "x \<noteq> [] \<Longrightarrow> plate_sample (length x) fn = Inr fn"
  by (simp add: plate_sample_def)

lemma plate_sample_empty [simp]: "plate_sample 0 fn = Inl ZeroDivisionError"
  by (simp add: plate_sample_def)


lemma model_empty_batch:
  "model (MyPyroModule_init n_input n_latent d) [] library z = Inl ZeroDivisionError"
  by (simp add: model_def Let_def Normal_init_def broadcast2_def broadcast1_def)

lemma guide_empty_batch:
  "guide (MyPyroModule_init n_input n_latent d) [] a = Inl ZeroDivisionError"
  by (simp add: guide_def torch_log_add_scalar torch_sqrt_eq MyPyroModule_init_def forward_init
      Normal_init_def broadcast2_def broadcast1_def)

lemma inference_empty_batch:
  "snd (inference (MyModule_init n_input n_latent d) [] eps)
     = Inr \<lparr>io_qz_m = [], io_qz_v = [], io_z = []\<rparr>"
  by (simp add: inference_def torch_log_add_scalar torch_sqrt_eq MyModule_init_def forward_init
      Normal_init_def rsample_def standard_normal_def broadcast2_def broadcast1_def)







section \<open>Properties\<close>



text \<open>
  C2. For a batch \<open>x\<close> of \<open>b > 0\<close> rows of counts (non-negative integers) and outputs
  of \<open>inference\<close> and \<open>generative\<close> of matching shapes, with \<open>qz_v\<close> positive,
  \<open>theta\<close> not negative and \<open>px_rate + 1e-4\<close> positive: \<open>loss\<close> forms the logits
  \<open>log(px_rate + 1e-4) - log(theta + 1e-4)\<close>, sums the negative-binomial log-likelihood
  of each row over the features and the KL divergence of each row over the latent
  dimensions, and returns as scalar loss the negative mean over the batch of
  log-likelihood minus KL divergence, next to the two per-row terms.
\<close>

theorem C2_loss_value:
  assumes "tensors X_KEY = Some x" and "has_shape x b n" and "0 < b"
    and "has_shape (go_px_rate go) b n" and "length (go_theta go) = n"
    and "has_shape (io_qz_m io) b k" and "has_shape (io_qz_v io) b k"
    and "\<forall>row\<in>set (io_qz_v io). \<forall>v\<in>set row. 0 < v"
    and "\<forall>row\<in>set (go_px_rate go). \<forall>v\<in>set row. 0 < v + 1 / 10000"
    and "\<forall>v\<in>set (go_theta go). 0 \<le> v"
    and "\<forall>row\<in>set x. \<forall>v\<in>set row. nonnegative_integer v"
  shows "nb_logits (go_px_rate go) (go_theta go)
           = Inr (map (\<lambda>i. map (\<lambda>j. ln (go_px_rate go ! i ! j + 1 / 10000)
                                     - ln (go_theta go ! j + 1 / 10000)) [0..<n]) [0..<b])
       \<and> snd (loss lp self tensors io go) =
           Inr \<lparr>lr_loss = spec_loss lp x (go_px_rate go) (go_theta go) (io_qz_m io) (io_qz_v io),
                lr_reconstruction_loss =
                  map (\<lambda>i. - spec_log_likelihood lp (x ! i) (go_px_rate go ! i) (go_theta go))
                    [0..<b],
                lr_kl_local =
                  map (\<lambda>i. spec_kl_divergence (io_qz_m io ! i) (io_qz_v io ! i)) [0..<b],
                lr_kl_global = 0\<rparr>"
proof -
  have rpos: "\<forall>row\<in>set (go_px_rate go). \<forall>v\<in>set row. 0 < 1 / 10000 + v"
    using assms(9) by (simp add: add.commute)
  have tpos: "\<forall>v\<in>set (go_theta go). 0 < 1 / 10000 + v"
    using assms(10) by (auto intro: add_pos_nonneg)
  have "nb_logits (go_px_rate go) (go_theta go)
      = Inr (map (\<lambda>i. map (\<lambda>j. spec_logits (go_px_rate go ! i ! j) (go_theta go ! j)) [0..<n]) [0..<b])"
    by (rule nb_logits_eq [OF assms(4,5) rpos tpos])
  moreover have "snd (loss lp self tensors io go) =
           Inr \<lparr>lr_loss = spec_loss lp x (go_px_rate go) (go_theta go) (io_qz_m io) (io_qz_v io),
                lr_reconstruction_loss =
                  map (\<lambda>i. - spec_log_likelihood lp (x ! i) (go_px_rate go ! i) (go_theta go))
                    [0..<b],
                lr_kl_local =
                  map (\<lambda>i. spec_kl_divergence (io_qz_m io ! i) (io_qz_v io ! i)) [0..<b],
                lr_kl_global = 0\<rparr>"
    by (rule loss_eq [where b = b and n = n and k = k]) (rule assms rpos)+
  ultimately show ?thesis
    by (simp add: spec_logits_def)
qed

theorem C2_loss_value_witness:
  "[X_KEY \<mapsto> [[1, 0::real]]] X_KEY = Some [[1, 0]] \<and> has_shape [[1, 0::real]] 1 2 \<and> (0::nat) < 1
   \<and> has_shape [[1/2, 1/2::real]] 1 2 \<and> length [1, 1::real] = 2
   \<and> has_shape [[0::real]] 1 1 \<and> has_shape [[1::real]] 1 1
   \<and> (0::real) < 1 \<and> (0::real) < 1/2 + 1 / 10000 \<and> (0::real) \<le> 1
   \<and> nonnegative_integer 1 \<and> nonnegative_integer 0
   \<and> nb_logits [[1/2, 1/2]] [1, 1]
       = Inr [[ln (1/2 + 1/10000) - ln (1 + 1/10000), ln (1/2 + 1/10000) - ln (1 + 1/10000)]]
   \<and> snd (loss lp0 (MyModule_init 2 1 module_draw0) [X_KEY \<mapsto> [[1, 0]]]
            \<lparr>io_qz_m = [[0]], io_qz_v = [[1]], io_z = [[0]]\<rparr>
            \<lparr>go_px_scale = [[1/2, 1/2]], go_theta = [1, 1], go_px_rate = [[1/2, 1/2]]\<rparr>) =
         Inr \<lparr>lr_loss = spec_loss lp0 [[1, 0]] [[1/2, 1/2]] [1, 1] [[0]] [[1]],
              lr_reconstruction_loss = [- spec_log_likelihood lp0 [1, 0] [1/2, 1/2] [1, 1]],
              lr_kl_local = [0],
              lr_kl_global = 0\<rparr>"
  using C2_loss_value [of "[X_KEY \<mapsto> [[1, 0]]]" "[[1, 0]]" 1 2
      "\<lparr>go_px_scale = [[1/2, 1/2]], go_theta = [1, 1], go_px_rate = [[1/2, 1/2]]\<rparr>"
      "\<lparr>io_qz_m = [[0]], io_qz_v = [[1]], io_z = [[0]]\<rparr>" 1 lp0
      "MyModule_init 2 1 module_draw0"]
  by (simp add: has_shape_def spec_kl_divergence_def spec_kl_def numeral_2_eq_2
      nonnegative_integer_def)

text \<open>
  C3. For every drawn parameter setting, every batch \<open>x\<close> of \<open>n_input\<close> columns with
  entries above -1 (counts are not negative) and every noise draw, \<open>inference\<close> returns
  the dictionary of exactly \<open>qz_m\<close>, \<open>qz_v\<close> and \<open>z\<close>: \<open>qz_m\<close> is the mean encoder's
  transform of \<open>log(1 + x)\<close> with no link, \<open>qz_v\<close> the exponential of the variance
  encoder's transform of \<open>log(1 + x)\<close>, and \<open>z = qz_m + sqrt(qz_v) * noise\<close>.
\<close>

theorem C3_inference_outputs:
  assumes "\<forall>row\<in>set x. length row = n_input" and "\<forall>row\<in>set x. \<forall>v\<in>set row. -1 < v"
  shows "snd (inference (MyModule_init n_input n_latent d) x eps) =
     Inr \<lparr>io_qz_m = spec_qz_mean d n_input n_latent x,
          io_qz_v = spec_qz_var d n_input n_latent x,
          io_z = spec_z (spec_qz_mean d n_input n_latent x) (spec_qz_var d n_input n_latent x)
                   eps (length x) n_latent\<rparr>"
proof (rule inference_init [OF assms(1)])
  show "\<forall>row\<in>set x. \<forall>v\<in>set row. 0 < 1 + v"
    using assms(2) by force
qed

theorem C3_inference_outputs_witness:
  "length [0, 3::real] = 2 \<and> (-1::real) < 0 \<and> (-1::real) < 3
   \<and> snd (inference (MyModule_init 2 1 module_draw0) [[0, 3]] eps1) =
     Inr \<lparr>io_qz_m = [[0]], io_qz_v = [[1]], io_z = [[1]]\<rparr>"
  using C3_inference_outputs [of "[[0, 3]]" 2 1 module_draw0 eps1]
  by (simp add: spec_qz_mean_def spec_qz_var_def spec_z_def spec_transform_def
      module_draw0_def net_draw0_def eps1_def)

text \<open>
  C4. For a latent batch \<open>z\<close> of \<open>b\<close> rows, a size factor for each row and a decoder
  with at least one output feature, \<open>generative\<close> returns; every row of \<open>px_scale\<close>
  sums to 1 and row \<open>i\<close> of \<open>px_rate\<close> sums to the size factor of row \<open>i\<close>.
\<close>

theorem C4_rows_sum:
  assumes "has_shape z b n_latent" and "has_shape library b 1" and "0 < n_input"
  shows "\<exists>go. snd (generative (MyModule_init n_input n_latent d) z library) = Inr go
           \<and> has_shape (go_px_scale go) b n_input
           \<and> (\<forall>row\<in>set (go_px_scale go). sum_list row = 1)
           \<and> has_shape (go_px_rate go) b n_input
           \<and> (\<forall>i<b. sum_list (go_px_rate go ! i) = library ! i ! 0)"
proof -
  let ?p = "spec_px_scale d n_input n_latent z"
  have hp: "has_shape ?p b n_input" by (rule has_shape_spec_px_scale [OF assms(1)])
  have one: "\<forall>row\<in>set ?p. sum_list row = 1"
    using spec_px_scale_row_sum [OF assms(3)] by blast
  have hr: "has_shape (spec_px_rate library ?p) b n_input"
    using hp by (auto simp: has_shape_def spec_px_rate_def)
  have "sum_list (spec_px_rate library ?p ! i) = library ! i ! 0" if "i < b" for i
    using that hp one by (simp add: spec_px_rate_def has_shape_def sum_list_const_mult)
  with hp one hr show ?thesis
    unfolding generative_init [OF assms(1,2)] by simp
qed

theorem C4_rows_sum_witness:
  "has_shape [[0::real]] 1 1 \<and> has_shape [[5::real]] 1 1 \<and> (0::nat) < 2
   \<and> (\<exists>go. snd (generative (MyModule_init 2 1 module_draw0) [[0]] [[5]]) = Inr go
           \<and> has_shape (go_px_scale go) 1 2
           \<and> (\<forall>row\<in>set (go_px_scale go). sum_list row = 1)
           \<and> has_shape (go_px_rate go) 1 2
           \<and> (\<forall>i<1. sum_list (go_px_rate go ! i) = [[5]] ! i ! 0))"
  using C4_rows_sum [of "[[0]]" 1 1 "[[5]]" 2 module_draw0]
  by (simp add: has_shape_def)

text \<open>
  C5. For means and strictly positive variances of one shape, the KL term that \<open>loss\<close>
  computes is, in every latent dimension, the closed form
  \<open>0.5 * (var + mean^2 - 1 - log var)\<close>; it is never negative, and it is 0 where the
  mean is 0 and the variance 1.
\<close>

theorem C5_kl_closed_form:
  assumes "has_shape qz_m b n" and "has_shape qz_v b n"
    and "\<forall>row\<in>set qz_v. \<forall>v\<in>set row. 0 < v"
  shows "\<exists>k. kl_term qz_m qz_v = Inr k \<and> has_shape k b n
           \<and> (\<forall>i<b. \<forall>j<n.
                  k ! i ! j = 0.5 * (qz_v ! i ! j + (qz_m ! i ! j)\<^sup>2 - 1 - ln (qz_v ! i ! j))
                \<and> 0 \<le> k ! i ! j
                \<and> (qz_m ! i ! j = 0 \<and> qz_v ! i ! j = 1 \<longrightarrow> k ! i ! j = 0))"
proof -
  let ?k = "map (\<lambda>i. map (\<lambda>j. spec_kl (qz_m ! i ! j) (qz_v ! i ! j)) [0..<n]) [0..<b]"
  have "kl_term qz_m qz_v = Inr ?k"
    by (rule kl_term_eq [OF assms])
  moreover have "has_shape ?k b n"
    by (auto simp: has_shape_def)
  moreover have "?k ! i ! j = 0.5 * (qz_v ! i ! j + (qz_m ! i ! j)\<^sup>2 - 1 - ln (qz_v ! i ! j))
      \<and> 0 \<le> ?k ! i ! j \<and> (qz_m ! i ! j = 0 \<and> qz_v ! i ! j = 1 \<longrightarrow> ?k ! i ! j = 0)"
    if "i < b" "j < n" for i j
  proof -
    have "0 < qz_v ! i ! j"
      using that by (rule entry_nth [OF assms(2,3)])
    then have "0 \<le> spec_kl (qz_m ! i ! j) (qz_v ! i ! j)"
      by (rule spec_kl_nonneg)
    with that show ?thesis
      by (auto simp: spec_kl_def)
  qed
  ultimately show ?thesis by blast
qed

theorem C5_kl_closed_form_witness:
  "has_shape [[0, 2::real]] 1 2 \<and> has_shape [[1, 3::real]] 1 2
   \<and> (0::real) < 1 \<and> (0::real) < 3
   \<and> (\<exists>k. kl_term [[0, 2]] [[1, 3]] = Inr k \<and> has_shape k 1 2
           \<and> k ! 0 ! 0 = 0 \<and> k ! 0 ! 1 = 0.5 * (3 + 2\<^sup>2 - 1 - ln 3) \<and> 0 \<le> k ! 0 ! 1)"
proof -
  have h: "has_shape [[0, 2::real]] 1 2" "has_shape [[1, 3::real]] 1 2"
    "\<forall>row\<in>set [[1, 3::real]]. \<forall>v\<in>set row. 0 < v"
    by (simp_all add: has_shape_def)
  from C5_kl_closed_form [OF h] obtain k where k: "kl_term [[0, 2]] [[1, 3]] = Inr k"
    "has_shape k 1 2"
    "\<forall>i<1. \<forall>j<2.
        k ! i ! j = 0.5 * ([[1, 3::real]] ! i ! j + ([[0, 2::real]] ! i ! j)\<^sup>2 - 1 - ln ([[1, 3::real]] ! i ! j))
      \<and> 0 \<le> k ! i ! j
      \<and> ([[0, 2::real]] ! i ! j = 0 \<and> [[1, 3::real]] ! i ! j = 1 \<longrightarrow> k ! i ! j = 0)"
    by blast
  from k(3) have "k ! 0 ! 0 = 0" by force
  moreover from k(3) have "k ! 0 ! 1 = 0.5 * (3 + 2\<^sup>2 - 1 - ln 3) \<and> 0 \<le> k ! 0 ! 1"
    by force
  ultimately show ?thesis using h(1,2) k(1,2) by simp
qed

text \<open>
  C6. For a batch of \<open>b > 0\<close> rows of zero counts (the scenario of the specification
  has 2 rows, 100 features and 10 latent dimensions), the pass through \<open>inference\<close>,
  \<open>_get_generative_input\<close>, \<open>generative\<close> and \<open>loss\<close> returns at every step: the size
  factor of every row is 0, every entry of \<open>px_rate\<close> is 0, both arguments of the
  logarithm in \<open>loss\<close> are strictly positive, and \<open>loss\<close> returns real numbers for the
  log-likelihood of every row and for the scalar loss.
\<close>

theorem C6_all_zero_batch:
  assumes "0 < b" and "tensors X_KEY = Some (replicate b (replicate n_input 0))"
  shows "\<exists>x io go l.
           get_inference_input (MyModule_init n_input n_latent d) tensors = Inr x
         \<and> snd (inference (MyModule_init n_input n_latent d) x eps) = Inr io
         \<and> get_generative_input (MyModule_init n_input n_latent d) tensors io
             = Inr (io_z io, replicate b [0])
         \<and> snd (generative (MyModule_init n_input n_latent d) (io_z io) (replicate b [0])) = Inr go
         \<and> go_px_rate go = replicate b (replicate n_input 0)
         \<and> (\<forall>row\<in>set (go_px_rate go). \<forall>v\<in>set row. 0 < v + 1 / 10000)
         \<and> (\<forall>v\<in>set (go_theta go). 0 < v + 1 / 10000)
         \<and> snd (loss lp (MyModule_init n_input n_latent d) tensors io go) = Inr l
         \<and> length (lr_reconstruction_loss l) = b"
proof -
  let ?M = "MyModule_init n_input n_latent d"
  let ?x = "replicate b (replicate n_input (0::real))"
  let ?m = "spec_qz_mean d n_input n_latent ?x" and ?v = "spec_qz_var d n_input n_latent ?x"
  let ?io = "\<lparr>io_qz_m = ?m, io_qz_v = ?v, io_z = spec_z ?m ?v eps (length ?x) n_latent\<rparr>"
  let ?p = "spec_px_scale d n_input n_latent (io_z ?io)"
  let ?go = "\<lparr>go_px_scale = ?p, go_theta = spec_theta d n_input,
              go_px_rate = spec_px_rate (replicate b [0]) ?p\<rparr>"
  have gi: "get_inference_input ?M tensors = Inr ?x"
    using assms(2) by (simp add: get_inference_input_def getitem_def)
  have inf: "snd (inference ?M ?x eps) = Inr ?io"
    by (rule inference_init) simp_all
  have gg: "get_generative_input ?M tensors ?io = Inr (io_z ?io, replicate b [0])"
    using assms(2)
    by (simp add: get_generative_input_def getitem_def sum_dim1_keepdim_zeros Let_def)
  have hz: "has_shape (io_z ?io) b n_latent"
    using has_shape_spec_z [of ?m ?v eps b n_latent] by simp
  have hl: "has_shape (replicate b [0::real]) b 1"
    by (simp add: has_shape_def)
  have gen: "snd (generative ?M (io_z ?io) (replicate b [0])) = Inr ?go"
    by (rule generative_init [OF hz hl])
  have hp: "has_shape ?p b n_input"
    by (rule has_shape_spec_px_scale [OF hz])
  have rate: "go_px_rate ?go = replicate b (replicate n_input 0)"
    using spec_px_rate_zero_library [OF hp] by simp
  have rpos: "\<forall>row\<in>set (go_px_rate ?go). \<forall>v\<in>set row. 0 < v + 1 / 10000"
    unfolding rate by simp
  have tpos: "\<forall>v\<in>set (go_theta ?go). 0 < v + 1 / 10000"
    using spec_theta_pos [of _ d n_input] by (auto intro: add_pos_pos)
  have hx: "has_shape ?x b n_input" by (simp add: has_shape_def)
  have hr: "has_shape (go_px_rate ?go) b n_input"
    unfolding rate by (simp add: has_shape_def)
  have hm: "has_shape (io_qz_m ?io) b n_latent"
    using has_shape_spec_qz_mean [of d n_input n_latent ?x] by simp
  have hv: "has_shape (io_qz_v ?io) b n_latent"
    using has_shape_spec_qz_var [of d n_input n_latent ?x] by simp
  have vpos: "\<forall>row\<in>set (io_qz_v ?io). \<forall>v\<in>set row. 0 < v"
    using spec_qz_var_pos [of _ d n_input n_latent ?x] by auto
  have lt: "length (go_theta ?go) = n_input" by simp
  have rpos': "\<forall>row\<in>set (go_px_rate ?go). \<forall>v\<in>set row. 0 < 1 / 10000 + v"
    using rpos by (simp add: add.commute)
  have tnn: "\<forall>v\<in>set (go_theta ?go). 0 \<le> v"
    using spec_theta_pos [of _ d n_input] by (auto intro: less_imp_le)
  have sup: "\<forall>row\<in>set ?x. \<forall>u\<in>set row. nonnegative_integer u"
    by (simp add: nonnegative_integer_def)
  have "\<exists>l. snd (loss lp ?M tensors ?io ?go) = Inr l \<and> length (lr_reconstruction_loss l) = b"
    by (subst loss_eq [where b = b and n = n_input and k = n_latent])
       (rule assms hx hr lt hm hv rpos' tnn vpos sup | simp)+
  then obtain l where l: "snd (loss lp ?M tensors ?io ?go) = Inr l"
    "length (lr_reconstruction_loss l) = b"
    by blast
  from gi inf gg gen rate rpos tpos l show ?thesis
    by blast
qed

theorem C6_all_zero_batch_witness:
  "(0::nat) < 2
   \<and> [X_KEY \<mapsto> replicate 2 (replicate 100 (0::real))] X_KEY
       = Some (replicate 2 (replicate 100 0))
   \<and> (\<exists>x io go l.
           get_inference_input (MyModule_init 100 10 module_draw0)
             [X_KEY \<mapsto> replicate 2 (replicate 100 0)] = Inr x
         \<and> snd (inference (MyModule_init 100 10 module_draw0) x eps1) = Inr io
         \<and> get_generative_input (MyModule_init 100 10 module_draw0)
             [X_KEY \<mapsto> replicate 2 (replicate 100 0)] io = Inr (io_z io, [[0], [0]])
         \<and> snd (generative (MyModule_init 100 10 module_draw0) (io_z io) [[0], [0]]) = Inr go
         \<and> go_px_rate go = replicate 2 (replicate 100 0)
         \<and> (\<forall>row\<in>set (go_px_rate go). \<forall>v\<in>set row. 0 < v + 1 / 10000)
         \<and> (\<forall>v\<in>set (go_theta go). 0 < v + 1 / 10000)
         \<and> snd (loss lp0 (MyModule_init 100 10 module_draw0)
                  [X_KEY \<mapsto> replicate 2 (replicate 100 0)] io go) = Inr l
         \<and> length (lr_reconstruction_loss l) = 2)"
proof -
  have b: "(0::nat) < 2" by simp
  have t: "[X_KEY \<mapsto> replicate 2 (replicate 100 (0::real))] X_KEY
      = Some (replicate 2 (replicate 100 0))"
    by simp
  have r: "replicate 2 [0::real] = [[0], [0]]"
    by (simp add: numeral_2_eq_2)
  from C6_all_zero_batch [where b = 2 and n_input = 100 and n_latent = 10
      and tensors = "[X_KEY \<mapsto> replicate 2 (replicate 100 0)]"
      and d = module_draw0 and eps = eps1 and lp = lp0, OF b t] b t
  show ?thesis
    unfolding r by blast
qed

text \<open>
  C8. The guide computes the same thing whatever its second argument, named
  \<open>log_library\<close>, is; and what \<open>_get_fn_args_from_batch\<close> passes there is the raw
  size factor, the row sums of \<open>x\<close>, for every batch dictionary that holds \<open>x\<close>.
\<close>

theorem C8_guide_ignores_second_argument:
  "guide self x a = guide self x b
   \<and> get_fn_args_from_batch (tensor_dict(X_KEY \<mapsto> x))
       = Inr ((x, sum_dim1_keepdim x), Map.empty)"
  by (simp add: guide_def get_fn_args_from_batch_def getitem_def)

text \<open>
  C9. \<open>inference\<close>, \<open>generative\<close> and \<open>loss\<close> read the parameters of the module and
  never write them: the module after each call is the module before it.
\<close>

theorem C9_parameters_unchanged:
  "fst (inference self x eps) = self
   \<and> fst (generative self z library) = self
   \<and> fst (loss lp self tensors inference_outputs generative_outputs) = self"
  by (simp add: inference_def generative_def loss_def)

text \<open>
  C10. Whatever string other than \<open>softmax\<close> and \<open>exp\<close> is given as \<open>link_var\<close>, also one
  outside the three documented values, the constructor of \<open>MyNeuralNet\<close> builds the
  network with \<open>transformation\<close> left at \<open>None\<close>, and \<open>forward\<close> returns what the
  \<open>Sequential\<close> block returns, unchanged: the string is never validated.
\<close>

theorem C10_unknown_link_is_identity:
  assumes "link_var \<noteq> ''softmax''" and "link_var \<noteq> ''exp''"
  shows "transformation (MyNeuralNet_init n_input n_output link_var d) = None
       \<and> forward (MyNeuralNet_init n_input n_output link_var d) x
           = Sequential_forward (neural_net (MyNeuralNet_init n_input n_output link_var d)) x"
  using assms
  by (cases "Sequential_forward (neural_net (MyNeuralNet_init n_input n_output link_var d)) x")
     (simp_all add: MyNeuralNet_init_def forward_def ebind_def Let_def)

theorem C10_unknown_link_witness:
  "''tanh'' \<noteq> ''softmax'' \<and> ''tanh'' \<noteq> ''exp''
   \<and> transformation (MyNeuralNet_init 2 1 ''tanh'' net_draw0) = None
   \<and> forward (MyNeuralNet_init 2 1 ''tanh'' net_draw0) [[1, 2]]
       = Sequential_forward (neural_net (MyNeuralNet_init 2 1 ''tanh'' net_draw0)) [[1, 2]]"
  using C10_unknown_link_is_identity [of "''tanh''" 2 1 net_draw0 "[[1, 2]]"] by simp

end
